theory Spec2Isabelle
  imports
    Main
    "HOL-Library.Char_ord"
    "HOL-Library.List_Lexorder"
    "HOL-Library.Product_Lexorder"
begin

section \<open>The IOCCC submissions viewer (\<open>split_cli.py\<close>)\<close>

text \<open>
  The program is a two-pane terminal browser written on the Textual widget framework: a
  \<open>FileTree\<close> (a \<open>Tree\<close> widget) on the left and a \<open>ContentView\<close> (a
  \<open>ScrollableContainer\<close>) on the right, both children of one \<open>MainScreen\<close>.
  Every handler of the three classes is embedded as a function from the state of the
  screen to the new state. What the handlers ask of the framework (assigning
  \<open>scroll_y\<close>, \<open>focus()\<close>, \<open>blur()\<close>, \<open>expand()\<close>, \<open>collapse()\<close>) is kept in a
  few small definitions of its own, each marked as such, so that the handlers read like
  their source.

  Strings are byte strings (a character outside ASCII is its UTF-8 bytes); key names are
  the strings Textual puts into \<open>event.key\<close> (\<open>''j''\<close>, \<open>''ctrl+d''\<close>, \<open>''enter''\<close>).
\<close>

subsection \<open>String operations of Python used by the source\<close>

definition startswith :: "string \<Rightarrow> string \<Rightarrow> bool" where
  "startswith s p = (take (length p) s = p)"

definition endswith :: "string \<Rightarrow> string \<Rightarrow> bool" where
  "endswith s p = (length p \<le> length s \<and> drop (length s - length p) s = p)"

text \<open>\<open>contains s p\<close> is Python's \<open>p in s\<close> on strings.\<close>

fun contains :: "string \<Rightarrow> string \<Rightarrow> bool" where
  "contains [] p = (p = [])"
| "contains (c # s) p = (startswith (c # s) p \<or> contains s p)"

text \<open>\<open>str\<close> of a non-negative integer, as an f-string prints a \<open>len(...)\<close>.\<close>

definition digit_char :: "nat \<Rightarrow> char" where
  "digit_char d = char_of (48 + d)"

fun str_nat :: "nat \<Rightarrow> string" where
  "str_nat n = (if n < 10 then [digit_char n] else str_nat (n div 10) @ [digit_char (n mod 10)])"

declare str_nat.simps [simp del]

text \<open>\<open>os.path.basename\<close> and \<open>os.path.join\<close> (two arguments) on POSIX paths.\<close>

definition basename :: "string \<Rightarrow> string" where
  "basename p = rev (takeWhile (\<lambda>c. c \<noteq> CHR ''/'') (rev p))"

definition path_join :: "string \<Rightarrow> string \<Rightarrow> string" where
  "path_join a b =
     (if startswith b ''/'' then b
      else if a = [] \<or> endswith a ''/'' then a @ b
      else a @ ''/'' @ b)"

subsection \<open>The tree widget's nodes\<close>

text \<open>
  A node of Textual's \<open>Tree\<close>: its label, the \<open>data\<close> given when it was added (here a
  dictionary with the one key \<open>path\<close>, or \<open>None\<close> for the root), its children, whether it
  is expanded, and whether it was added with \<open>add\<close> (a branch) or \<open>add_leaf\<close>.
\<close>

datatype tnode =
  TNode (label: string) (data: "(string \<times> string) list option")
        (children: "tnode list") (is_expanded: bool) (allow_expand: bool)

text \<open>Framework: \<open>node.expand()\<close> and \<open>node.collapse()\<close> set the node's own flag.\<close>

fun expand :: "tnode \<Rightarrow> tnode" where
  "expand (TNode l d cs e a) = TNode l d cs True a"

fun collapse :: "tnode \<Rightarrow> tnode" where
  "collapse (TNode l d cs e a) = TNode l d cs False a"

text \<open>
  The cursor is kept as the path of child indices from the root to the highlighted node;
  \<open>None\<close> is Textual's ``no cursor node''. \<open>node_at\<close> reads the node at a path,
  \<open>update_at\<close> replaces it (the source mutates the node object in place).
\<close>

fun node_at :: "tnode \<Rightarrow> nat list \<Rightarrow> tnode option" where
  "node_at n [] = Some n"
| "node_at n (i # p) =
     (if i < length (children n) then node_at (children n ! i) p else None)"

fun update_at :: "nat list \<Rightarrow> (tnode \<Rightarrow> tnode) \<Rightarrow> tnode \<Rightarrow> tnode" where
  "update_at [] f n = f n"
| "update_at (i # p) f (TNode l d cs e a) =
     (if i < length cs then TNode l d (cs[i := update_at p f (cs ! i)]) e a
      else TNode l d cs e a)"

subsection \<open>The content view and its scroll position\<close>

text \<open>
  \<open>render_text\<close> is the text shown, \<open>scroll_y\<close> the vertical offset.
  \<open>virtual_height\<close> is \<open>self.virtual_size.height\<close> (the height of the content) and
  \<open>size_height\<close> is \<open>self.size.height\<close> (the height of the viewport); both are supplied by
  the rendering surface.
\<close>

record content_view =
  render_text :: string
  scroll_y :: int
  virtual_height :: int
  size_height :: int

text \<open>
  Modelled from the spec: the assignment to \<open>scroll_y\<close>. The source only writes
  \<open>self.scroll_y = ...\<close>; \<open>scroll_y\<close> is a reactive attribute of the framework whose
  validator is not part of this repository. The spec (sections 3 and 4.3) says that every
  mutating operation re-clamps the offset to \<open>0 \<le> offset \<le> max(0, contentHeight -
  viewportHeight)\<close>, which is what the validator is taken to do.
\<close>

definition max_scroll_y :: "content_view \<Rightarrow> int" where
  "max_scroll_y v = max 0 (virtual_height v - size_height v)"

definition validate_scroll_y :: "content_view \<Rightarrow> int \<Rightarrow> int" where
  "validate_scroll_y v y = (if y < 0 then 0 else if max_scroll_y v < y then max_scroll_y v else y)"

definition set_scroll_y :: "int \<Rightarrow> content_view \<Rightarrow> content_view" where
  "set_scroll_y y v = v\<lparr>scroll_y := validate_scroll_y v y\<rparr>"

text \<open>
  Modelled from the spec: the layout pass of the framework that follows a change of the
  shown text. It stores the height \<open>h\<close> of the new content and validates the offset
  against it again (``every mutating operation re-clamps''); it never sets the offset to
  a value of its own.
\<close>

definition relayout :: "int \<Rightarrow> content_view \<Rightarrow> content_view" where
  "relayout h v = set_scroll_y (scroll_y v) (v\<lparr>virtual_height := h\<rparr>)"

text \<open>\<open>ContentView.update\<close>: the new text replaces the old one; nothing else is touched.\<close>

definition update :: "string \<Rightarrow> content_view \<Rightarrow> content_view" where
  "update text v = v\<lparr>render_text := text\<rparr>"

definition action_scroll_down :: "content_view \<Rightarrow> content_view" where
  "action_scroll_down v = set_scroll_y (scroll_y v + 1) v"

definition action_scroll_up :: "content_view \<Rightarrow> content_view" where
  "action_scroll_up v = set_scroll_y (scroll_y v - 1) v"

definition action_scroll_home :: "content_view \<Rightarrow> content_view" where
  "action_scroll_home v = set_scroll_y 0 v"

definition action_scroll_end :: "content_view \<Rightarrow> content_view" where
  "action_scroll_end v = set_scroll_y (virtual_height v) v"

definition action_page_down :: "content_view \<Rightarrow> content_view" where
  "action_page_down v = set_scroll_y (scroll_y v + (size_height v - 2)) v"

definition action_page_up :: "content_view \<Rightarrow> content_view" where
  "action_page_up v = set_scroll_y (scroll_y v - (size_height v - 2)) v"

subsection \<open>The state of the screen\<close>

datatype pane = TreePane | ContentPane

text \<open>
  \<open>root\<close>, \<open>cursor\<close> and \<open>visible\<close> belong to the \<open>FileTree\<close>; \<open>tree_width\<close>,
  \<open>tree_display\<close> and \<open>content_width\<close> are the style values \<open>toggle_visibility\<close> writes;
  \<open>content\<close> is the \<open>ContentView\<close>; \<open>focused\<close> is the widget that holds the keyboard
  focus (\<open>screen.focused\<close>), so \<open>w.has_focus\<close> is \<open>focused s = Some w\<close>.
\<close>

record viewer =
  root :: tnode
  cursor :: "nat list option"
  visible :: bool
  tree_width :: string
  tree_display :: string
  content_width :: string
  content :: content_view
  focused :: "pane option"

text \<open>
  Modelled from the spec: who can hold the focus. \<open>focus()\<close>, \<open>blur()\<close> and what
  happens to the focus when a widget is hidden belong to the framework and are not part
  of this repository. The spec (sections 3 and 4.4) says that a hidden pane cannot hold
  focus and that hiding the sidebar forces the focus to the content view. So \<open>w.focus()\<close>
  gives \<open>w\<close> the focus unless \<open>w\<close> is the hidden tree, on which it has no effect;
  \<open>w.blur()\<close> takes the focus from \<open>w\<close> if \<open>w\<close> has it; and a tree that holds the focus
  when it is hidden passes it to the content view (\<open>focus_leaves_hidden\<close>). In the
  source every \<open>blur()\<close> is followed by a \<open>focus()\<close> of the other pane.
\<close>

definition focusable :: "pane \<Rightarrow> viewer \<Rightarrow> bool" where
  "focusable w s = (w = ContentPane \<or> visible s)"

definition focus :: "pane \<Rightarrow> viewer \<Rightarrow> viewer" where
  "focus w s = (if focusable w s then s\<lparr>focused := Some w\<rparr> else s)"

definition focus_leaves_hidden :: "viewer \<Rightarrow> viewer" where
  "focus_leaves_hidden s =
     (if \<not> visible s \<and> focused s = Some TreePane then s\<lparr>focused := Some ContentPane\<rparr>
      else s)"

definition blur :: "pane \<Rightarrow> viewer \<Rightarrow> viewer" where
  "blur w s = (if focused s = Some w then s\<lparr>focused := None\<rparr> else s)"

definition has_focus :: "pane \<Rightarrow> viewer \<Rightarrow> bool" where
  "has_focus w s = (focused s = Some w)"

definition cursor_node :: "viewer \<Rightarrow> tnode option" where
  "cursor_node s = (case cursor s of None \<Rightarrow> None | Some p \<Rightarrow> node_at (root s) p)"

text \<open>Applying a mutation to the node under the cursor.\<close>

definition on_cursor_node :: "(tnode \<Rightarrow> tnode) \<Rightarrow> viewer \<Rightarrow> viewer" where
  "on_cursor_node f s =
     (case cursor s of None \<Rightarrow> s | Some p \<Rightarrow> s\<lparr>root := update_at p f (root s)\<rparr>)"

definition on_content :: "(content_view \<Rightarrow> content_view) \<Rightarrow> viewer \<Rightarrow> viewer" where
  "on_content f s = s\<lparr>content := f (content s)\<rparr>"

subsection \<open>\<open>ContentView\<close>: key handler\<close>

definition action_return_to_tree :: "viewer \<Rightarrow> viewer" where
  "action_return_to_tree s = focus TreePane (blur ContentPane s)"

text \<open>
  \<open>ContentView.on_key\<close>. \<open>event.prevent_default()\<close> changes nothing in the state and is
  left out; a key with no branch leaves the state as it is.
\<close>

definition ContentView_on_key :: "string \<Rightarrow> viewer \<Rightarrow> viewer" where
  "ContentView_on_key key s =
     (if key = ''j'' then on_content action_scroll_down s
      else if key = ''k'' then on_content action_scroll_up s
      else if key = ''g'' then on_content action_scroll_home s
      else if key = ''G'' then on_content action_scroll_end s
      else if key = ''ctrl+d'' then on_content action_page_down s
      else if key = ''ctrl+u'' then on_content action_page_up s
      else if key = ''enter'' then action_return_to_tree s
      else s)"

subsection \<open>\<open>FileTree\<close>: visibility, key handler, expand and collapse\<close>

text \<open>
  \<open>FileTree.toggle_visibility\<close>. Once \<open>visible\<close> and the styles are written the tree
  is shown or hidden, and \<open>focus_leaves_hidden\<close> is the framework's reaction to that; the
  source itself asks for the focus only when the tree has become visible.
\<close>

definition toggle_visibility :: "viewer \<Rightarrow> viewer" where
  "toggle_visibility s =
     (let v = \<not> visible s;
          s1 = focus_leaves_hidden
                 (s\<lparr>visible := v,
                    tree_width := (if v then ''30%'' else ''0''),
                    tree_display := (if v then ''block'' else ''none''),
                    content_width := (if v then ''70%'' else ''100%'')\<rparr>)
      in if v then focus TreePane s1 else s1)"

text \<open>
  \<open>FileTree.on_key\<close>. \<open>action_cursor_down\<close> and \<open>action_cursor_up\<close> are inherited from
  the framework's \<open>Tree\<close> and are taken as the parameters \<open>down\<close> and \<open>up\<close>. A node's
  \<open>children\<close> are true in Python exactly when there is at least one child.
\<close>

definition FileTree_on_key ::
  "(viewer \<Rightarrow> viewer) \<Rightarrow> (viewer \<Rightarrow> viewer) \<Rightarrow> string \<Rightarrow> viewer \<Rightarrow> viewer" where
  "FileTree_on_key down up key s =
     (if key = ''j'' then down s
      else if key = ''k'' then up s
      else if key = ''enter'' then
        (case cursor_node s of
           None \<Rightarrow> s
         | Some n \<Rightarrow>
             if children n \<noteq> [] then
               (if is_expanded n then on_cursor_node collapse s
                else on_cursor_node expand s)
             else focus ContentPane (blur TreePane s))
      else s)"

definition action_expand_node :: "viewer \<Rightarrow> viewer" where
  "action_expand_node s =
     (case cursor_node s of
        None \<Rightarrow> s
      | Some n \<Rightarrow>
          if children n \<noteq> [] \<and> \<not> is_expanded n then on_cursor_node expand s else s)"

definition action_collapse_node :: "viewer \<Rightarrow> viewer" where
  "action_collapse_node s =
     (case cursor_node s of
        None \<Rightarrow> s
      | Some n \<Rightarrow>
          if children n \<noteq> [] \<and> is_expanded n then on_cursor_node collapse s else s)"

subsection \<open>\<open>MainScreen\<close>: focus actions\<close>

definition action_switch_focus :: "viewer \<Rightarrow> viewer" where
  "action_switch_focus s =
     (if has_focus TreePane s then focus ContentPane (blur TreePane s)
      else focus TreePane (blur ContentPane s))"

definition action_toggle_sidebar :: "viewer \<Rightarrow> viewer" where
  "action_toggle_sidebar s = toggle_visibility s"

definition action_focus_viewer :: "viewer \<Rightarrow> viewer" where
  "action_focus_viewer s = focus ContentPane (blur TreePane s)"

definition action_focus_tree :: "viewer \<Rightarrow> viewer" where
  "action_focus_tree s = focus TreePane (blur ContentPane s)"

definition MainScreen_on_key :: "string \<Rightarrow> viewer \<Rightarrow> viewer" where
  "MainScreen_on_key key s = (if key = ''tab'' then action_switch_focus s else s)"

subsection \<open>\<open>IOCCCViewer.update_content\<close>\<close>

text \<open>
  \<open>update_content\<close> is only ever called by a handler of the \<open>FileTree\<close>, which lives on
  the \<open>MainScreen\<close>, so the test that the current screen is a \<open>MainScreen\<close> holds. An empty
  \<open>content\<close> is false in Python.
\<close>

definition update_content :: "string \<Rightarrow> string \<Rightarrow> viewer \<Rightarrow> viewer" where
  "update_content lbl text s =
     (if text \<noteq> [] then on_content (update text) s
      else on_content (update (''No content available for '' @ lbl)) s)"

subsection \<open>\<open>FileTree.on_tree_node_highlighted\<close>\<close>

text \<open>
  The file system as the handler sees it when a node is highlighted: \<open>os.path.isfile\<close>,
  \<open>os.path.isdir\<close>, reading a whole file as text (undecodable bytes are replaced, so only
  the operating system can fail), and \<open>os.listdir\<close>. A failure is \<open>Inl\<close> of the
  exception's message \<open>str(e)\<close>.
\<close>

record filesystem =
  isfile :: "string \<Rightarrow> bool"
  isdir :: "string \<Rightarrow> bool"
  read_text :: "string \<Rightarrow> string + string"
  listdir :: "string \<Rightarrow> string + string list"

text \<open>The text a file is shown as: C sources, headers and makefiles get a code fence.\<close>

definition fenced :: "string \<Rightarrow> string \<Rightarrow> string" where
  "fenced path text =
     (if endswith path ''.c'' then ''```c\<newline>'' @ text @ ''\<newline>```''
      else if endswith path ''.h'' then ''```c\<newline>'' @ text @ ''\<newline>```''
      else if endswith path ''.mk'' \<or> contains path ''Makefile''
        then ''```makefile\<newline>'' @ text @ ''\<newline>```''
      else text)"

definition directory_summary :: "filesystem \<Rightarrow> string \<Rightarrow> string list \<Rightarrow> string" where
  "directory_summary fs path names =
     (let num_files = length (filter (\<lambda>f. isfile fs (path_join path f)) names);
          num_dirs = length (filter (\<lambda>d. isdir fs (path_join path d)) names)
      in ''# '' @ basename path @ ''\<newline>\<newline>''
         @ ''This directory contains:\<newline>''
         @ ''- '' @ str_nat num_files @ '' files\<newline>''
         @ ''- '' @ str_nat num_dirs @ '' directories\<newline>\<newline>''
         @ ''Select a file to view its contents.'')"

text \<open>
  \<open>ev\<close> is \<open>event.node\<close>. A \<open>data\<close> dictionary is true in Python when it is not empty;
  \<open>data.get('path', '')\<close> is the value stored under \<open>path\<close>, or the empty string.
\<close>

definition on_tree_node_highlighted :: "filesystem \<Rightarrow> tnode option \<Rightarrow> viewer \<Rightarrow> viewer" where
  "on_tree_node_highlighted fs ev s =
     (case ev of
        None \<Rightarrow> s
      | Some n \<Rightarrow>
          (case data n of
             None \<Rightarrow> s
           | Some d \<Rightarrow>
               if d = [] then s
               else
                 let path = (case map_of d ''path'' of None \<Rightarrow> [] | Some p \<Rightarrow> p) in
                 if path \<noteq> [] \<and> isfile fs path then
                   (case read_text fs path of
                      Inr text \<Rightarrow> update_content (label n) (fenced path text) s
                    | Inl e \<Rightarrow> update_content (label n) (''Error reading file: '' @ e) s)
                 else if isdir fs path then
                   (case listdir fs path of
                      Inr names \<Rightarrow>
                        update_content (label n) (directory_summary fs path names) s
                    | Inl e \<Rightarrow>
                        update_content (label n) (''Error reading directory: '' @ e) s)
                 else s))"

subsection \<open>\<open>FileTree.load_directory\<close>\<close>

text \<open>
  The directory as \<open>Path.iterdir\<close> finds it at startup: a file, or a directory with its
  entries in the order the operating system lists them; \<open>None\<close> is a directory that
  cannot be listed (\<open>iterdir\<close> raises). The type is a finite tree, so a cycle of symbolic
  links is not an input.
\<close>

datatype fsnode = FsFile string | FsDir string "fsnode list option"

fun fs_name :: "fsnode \<Rightarrow> string" where
  "fs_name (FsFile name) = name"
| "fs_name (FsDir name sub) = name"

fun is_dir :: "fsnode \<Rightarrow> bool" where
  "is_dir (FsFile name) = False"
| "is_dir (FsDir name sub) = True"

text \<open>
  \<open>str.lower\<close>, on the ASCII letters: names are byte strings, and the bytes of a
  character outside ASCII are left as they are.
\<close>

definition lower_char :: "char \<Rightarrow> char" where
  "lower_char c =
     (if CHR ''A'' \<le> c \<and> c \<le> CHR ''Z'' then char_of (of_char c + (32::nat)) else c)"

definition lower :: "string \<Rightarrow> string" where
  "lower s = map lower_char s"

text \<open>
  \<open>Path.suffix\<close>: the name from its last dot on, when that dot is neither the first nor
  the last character; otherwise empty.
\<close>

definition path_suffix :: "string \<Rightarrow> string" where
  "path_suffix name =
     (if CHR ''.'' \<in> set name then
        (let ext = rev (takeWhile (\<lambda>c. c \<noteq> CHR ''.'') (rev name));
             i = length name - Suc (length ext)
         in if 0 < i \<and> ext \<noteq> [] then CHR ''.'' # ext else [])
      else [])"

text \<open>The icon literals, byte for byte as the source file has them.\<close>

definition icon_folder :: string where
  "icon_folder = [CHR 0xC3, CHR 0xB0, CHR 0xC5, CHR 0xB8, CHR 0xE2, CHR 0x80, CHR 0x9C]"

definition icon_c :: string where
  "icon_c = icon_folder @ [CHR 0xE2, CHR 0x80, CHR 0x9E]"

definition icon_text :: string where
  "icon_text = icon_folder"

definition icon_make :: string where
  "icon_make = [CHR 0xC3, CHR 0xB0, CHR 0xC5, CHR 0xB8, CHR 0xE2, CHR 0x80, CHR 0x9D, CHR 0xC2, CHR 0xA7]"

definition icon_other :: string where
  "icon_other = icon_folder @ [CHR 0xC5, CHR 0xBD]"

definition file_icon :: "string \<Rightarrow> string" where
  "file_icon name =
     (let sfx = path_suffix name in
      if sfx \<in> set [''.c'', ''.h''] then icon_c
      else if sfx \<in> set [''.txt'', ''.md'', ''.info''] then icon_text
      else if sfx \<in> set [''.mk'', ''Makefile''] then icon_make
      else icon_other)"

definition skipped :: "string \<Rightarrow> bool" where
  "skipped name = (startswith name ''.'' \<or> name = ''__pycache__'')"

definition iter_key :: "fsnode \<Rightarrow> bool \<times> string" where
  "iter_key p = (\<not> is_dir p, lower (fs_name p))"

text \<open>
  \<open>add_to_tree\<close> returns the nodes it adds under \<open>node\<close>, in the order of the loop, or
  \<open>None\<close> when an \<open>iterdir\<close> below raises (nothing in \<open>load_directory\<close> catches it).
  \<open>sort_key\<close> is a stable sort, as Python's \<open>sorted\<close> is. \<open>str(item)\<close> is the path of
  the directory, a slash, and the name.
\<close>

fun add_to_tree :: "string \<Rightarrow> fsnode list option \<Rightarrow> tnode list option" where
  "add_to_tree path None = None"
| "add_to_tree path (Some entries) =
     those (map
       (\<lambda>item. case item of
          FsDir name sub \<Rightarrow>
            (case add_to_tree (path @ ''/'' @ name) sub of
               None \<Rightarrow> None
             | Some branch \<Rightarrow>
                 Some (TNode (icon_folder @ '' '' @ name)
                         (Some [(''path'', path @ ''/'' @ name)]) branch False True))
        | FsFile name \<Rightarrow>
            Some (TNode (file_icon name @ '' '' @ name)
                    (Some [(''path'', path @ ''/'' @ name)]) [] False False))
       (filter (\<lambda>item. \<not> skipped (fs_name item)) (sort_key iter_key entries)))"

definition load_directory :: "string \<Rightarrow> fsnode list option \<Rightarrow> viewer \<Rightarrow> viewer option" where
  "load_directory path dir s =
     (case add_to_tree path dir of
        None \<Rightarrow> None
      | Some nodes \<Rightarrow>
          Some (s\<lparr>root := TNode (label (root s)) (data (root s)) (children (root s) @ nodes)
                              (is_expanded (root s)) (allow_expand (root s))\<rparr>))"

subsection \<open>Startup\<close>

definition welcome_text :: string where
  "welcome_text =
     ''Welcome to IOCCC Submissions Viewer!\<newline>\<newline>''
     @ ''Navigation:\<newline>''
     @ ''- j/k: Move up/down in tree or scroll content\<newline>''
     @ ''- Enter: Open/close folders in tree, focus viewer for files\<newline>''
     @ ''- Enter (in viewer): Return to tree\<newline>''
     @ ''- zo/zc: Expand/collapse directories\<newline>''
     @ ''- fk: Focus viewer\<newline>''
     @ ''- fh: Focus sidebar\<newline>''
     @ ''- Tab: Switch between tree and content\<newline>''
     @ ''- ~: Toggle sidebar\<newline>''
     @ ''- q: Quit\<newline>\<newline>''
     @ ''Content View Additional Controls:\<newline>''
     @ ''- Ctrl+u/Ctrl+d: Page up/down\<newline>''
     @ ''- gg/G: Jump to top/bottom''"

text \<open>
  \<open>MainScreen.compose\<close>: the tree with its root \<open>Files\<close> and no cursor node yet, the
  content view with the welcome text at offset 0. \<open>vh\<close> and \<open>sh\<close> are the heights the
  rendering surface reports.
\<close>

definition compose :: "int \<Rightarrow> int \<Rightarrow> viewer" where
  "compose vh sh =
     \<lparr>root = TNode ''Files'' None [] False True,
      cursor = None,
      visible = True,
      tree_width = ''30%'',
      tree_display = ''block'',
      content_width = ''70%'',
      content = \<lparr>render_text = welcome_text, scroll_y = 0, virtual_height = vh, size_height = sh\<rparr>,
      focused = None\<rparr>"

definition FileTree_on_mount :: "fsnode list option \<Rightarrow> viewer \<Rightarrow> viewer option" where
  "FileTree_on_mount assets s = load_directory ''assets'' assets (s\<lparr>root := expand (root s)\<rparr>)"

definition MainScreen_on_mount :: "viewer \<Rightarrow> viewer" where
  "MainScreen_on_mount s = focus TreePane s"

definition startup :: "fsnode list option \<Rightarrow> int \<Rightarrow> int \<Rightarrow> viewer option" where
  "startup assets vh sh =
     (case FileTree_on_mount assets (compose vh sh) of
        None \<Rightarrow> None
      | Some s \<Rightarrow> Some (MainScreen_on_mount s))"

section \<open>Properties\<close>

subsection \<open>Predicates and runs the properties are stated with\<close>

text \<open>The scroll invariant of the content view.\<close>

definition scroll_clamped :: "content_view \<Rightarrow> bool" where
  "scroll_clamped v =
     (0 \<le> scroll_y v \<and> scroll_y v \<le> max 0 (virtual_height v - size_height v))"

text \<open>The scroll actions of \<open>ContentView\<close>, and the states a sequence of them runs through.\<close>

datatype scroll_action = ScrollDown | ScrollUp | ScrollHome | ScrollEnd | PageDown | PageUp

fun scroll :: "scroll_action \<Rightarrow> content_view \<Rightarrow> content_view" where
  "scroll ScrollDown = action_scroll_down"
| "scroll ScrollUp = action_scroll_up"
| "scroll ScrollHome = action_scroll_home"
| "scroll ScrollEnd = action_scroll_end"
| "scroll PageDown = action_page_down"
| "scroll PageUp = action_page_up"

fun scroll_trace :: "scroll_action list \<Rightarrow> content_view \<Rightarrow> content_view list" where
  "scroll_trace [] v = []"
| "scroll_trace (a # as) v = scroll a v # scroll_trace as (scroll a v)"

text \<open>A sequence of keys typed into the content view.\<close>

definition press :: "string list \<Rightarrow> viewer \<Rightarrow> viewer" where
  "press keys s = foldl (\<lambda>t key. ContentView_on_key key t) s keys"

text \<open>
  What can happen to the viewer after startup: a key reaches the content view, the tree
  (\<open>p\<close> is where the framework's cursor action puts the cursor) or the screen, one of
  the bound actions runs, a node is highlighted, or the content is laid out again. Which
  widget a key reaches is the framework's business; here every handler may run in every
  state, which only adds runs.
\<close>

datatype event =
  ContentKey string
  | TreeKey string "nat list option"
  | ScreenKey string
  | ToggleSidebar
  | FocusViewer
  | FocusTree
  | ExpandNode
  | CollapseNode
  | Highlighted filesystem "tnode option"
  | Layout int

fun step :: "event \<Rightarrow> viewer \<Rightarrow> viewer" where
  "step (ContentKey key) s = ContentView_on_key key s"
| "step (TreeKey key p) s =
     FileTree_on_key (\<lambda>t. t\<lparr>cursor := p\<rparr>) (\<lambda>t. t\<lparr>cursor := p\<rparr>) key s"
| "step (ScreenKey key) s = MainScreen_on_key key s"
| "step ToggleSidebar s = action_toggle_sidebar s"
| "step FocusViewer s = action_focus_viewer s"
| "step FocusTree s = action_focus_tree s"
| "step ExpandNode s = action_expand_node s"
| "step CollapseNode s = action_collapse_node s"
| "step (Highlighted fs ev) s = on_tree_node_highlighted fs ev s"
| "step (Layout h) s = on_content (relayout h) s"

definition run :: "event list \<Rightarrow> viewer \<Rightarrow> viewer" where
  "run es s = foldl (\<lambda>t e. step e t) s es"

text \<open>
  The focus invariant of a run: while the sidebar is visible some pane has the focus,
  and while it is hidden the tree does not have it.
\<close>

definition focus_ok :: "viewer \<Rightarrow> bool" where
  "focus_ok s = (if visible s then focused s \<noteq> None else focused s \<noteq> Some TreePane)"

text \<open>
  The name of the entry a node was made for: its label after the icon and the blank that
  follows it (no icon contains a blank).
\<close>

definition node_name :: "tnode \<Rightarrow> string" where
  "node_name n = drop 1 (dropWhile (\<lambda>c. c \<noteq> CHR '' '') (label n))"

text \<open>
  \<open>listed_before a b\<close>: a directory comes before a file, and two nodes of the same kind
  are in the order of their lower-cased names. Directories are the nodes made with
  \<open>add\<close>, files those made with \<open>add_leaf\<close>.
\<close>

definition listed_before :: "tnode \<Rightarrow> tnode \<Rightarrow> bool" where
  "listed_before a b =
     ((allow_expand a \<and> \<not> allow_expand b)
      \<or> (allow_expand a = allow_expand b \<and> lower (node_name a) \<le> lower (node_name b)))"

definition child_key :: "tnode \<Rightarrow> bool \<times> string" where
  "child_key n = (\<not> allow_expand n, lower (node_name n))"

text \<open>
  \<open>well_listed n\<close>: everywhere below \<open>n\<close>, the children of a node are in the order
  \<open>listed_before\<close> and none of them has a skipped name.
\<close>

fun well_listed :: "tnode \<Rightarrow> bool" where
  "well_listed (TNode l d cs e a) =
     (sorted_wrt listed_before cs
      \<and> (\<forall>c \<in> set cs. \<not> skipped (node_name c) \<and> well_listed c))"


subsection \<open>A concrete session\<close>

text \<open>
  An \<open>assets\<close> directory with a C file, an empty directory, a hidden file, a source
  directory, a cache directory and a readme, in the order the operating system lists them.
\<close>

definition example_assets :: "fsnode list option" where
  "example_assets =
     Some [FsFile ''main.c'', FsDir ''empty'' (Some []), FsFile ''.hidden'',
           FsDir ''src'' (Some [FsFile ''b.h'', FsFile ''A.c'']),
           FsDir ''__pycache__'' (Some [FsFile ''x.pyc'']), FsFile ''README.md'']"

text \<open>The viewer after startup on it, on a surface that shows 10 of 100 lines.\<close>

definition started :: viewer where
  "started = (case startup example_assets 100 10 of Some s \<Rightarrow> s | None \<Rightarrow> compose 100 10)"

text \<open>The cursor moved to the node at path \<open>p\<close>.\<close>

definition cursor_on :: "nat list \<Rightarrow> viewer \<Rightarrow> viewer" where
  "cursor_on p s = s\<lparr>cursor := Some p\<rparr>"

text \<open>
  The user switches to the content view with Tab and scrolls down five lines
  (\<open>reading\<close>), then returns to the tree with Enter (\<open>browsing\<close>).
\<close>

definition reading :: viewer where
  "reading = press [''j'', ''j'', ''j'', ''j'', ''j''] (MainScreen_on_key ''tab'' started)"

definition browsing :: viewer where
  "browsing = ContentView_on_key ''enter'' reading"


text \<open>
  The file system at the time of a highlight: \<open>main.c\<close> has forty lines,
  \<open>README.md\<close> cannot be read.
\<close>

definition main_c_text :: string where
  "main_c_text = concat (replicate 40 ''int x;\<newline>'')"

definition example_fs :: filesystem where
  "example_fs =
     \<lparr>isfile = (\<lambda>p. p \<in> set [''assets/main.c'', ''assets/README.md'',
                               ''assets/src/A.c'', ''assets/src/b.h'']),
      isdir = (\<lambda>p. p \<in> set [''assets'', ''assets/empty'', ''assets/src'', ''assets/src/.git'']),
      read_text = (\<lambda>p. if p = ''assets/main.c'' then Inr main_c_text
                        else Inl (''[Errno 13] Permission denied: '' @ p)),
      listdir = (\<lambda>p. if p = ''assets/src'' then Inr [''b.h'', ''A.c'', ''.git'']
                      else if p = ''assets/empty'' then Inr []
                      else Inl (''[Errno 20] Not a directory: '' @ p))\<rparr>"


definition main_c_node :: tnode where
  "main_c_node =
     TNode (icon_c @ '' main.c'') (Some [(''path'', ''assets/main.c'')]) [] False False"


definition src_node :: tnode where
  "src_node =
     TNode (icon_folder @ '' src'') (Some [(''path'', ''assets/src'')])
       [TNode (icon_c @ '' A.c'') (Some [(''path'', ''assets/src/A.c'')]) [] False False,
        TNode (icon_c @ '' b.h'') (Some [(''path'', ''assets/src/b.h'')]) [] False False]
       False True"

subsection \<open>Scrolling\<close>

lemma set_scroll_y_clamped: "scroll_clamped (set_scroll_y y v)"
  by (auto simp add: scroll_clamped_def set_scroll_y_def validate_scroll_y_def max_scroll_y_def)

lemma scroll_clamped_step: "scroll_clamped (scroll a v)"
  by (cases a) (simp_all add: set_scroll_y_clamped action_scroll_down_def action_scroll_up_def
      action_scroll_home_def action_scroll_end_def action_page_down_def action_page_up_def)

text \<open>
  Claim C3. Whatever sequence of scroll-by-one, page, top and bottom actions is run, and
  from whatever state, the content view after each action satisfies
  \<open>0 \<le> offset \<le> max(0, contentHeight - viewportHeight)\<close>. The actions are total
  functions: scrolling past a bound is clamped, never an error. The clamp itself is the
  framework's validator of \<open>scroll_y\<close>, modelled from the spec; the source actions only
  assign the attribute.
\<close>

theorem scroll_offset_clamped: "list_all scroll_clamped (scroll_trace ops v)"
  by (induction ops arbitrary: v) (simp_all add: scroll_clamped_step)

lemma scroll_home_zero: "action_scroll_home v = v\<lparr>scroll_y := 0\<rparr>"
  by (simp add: action_scroll_home_def set_scroll_y_def validate_scroll_y_def max_scroll_y_def)

text \<open>
  Claim C1, as stated, fails: there is no pending state. In the session above the content
  view has the focus at offset 5; \<open>g\<close> followed by \<open>x\<close> leaves the offset at 0, not at 5.
\<close>

theorem g_then_other_key_counterexample:
  "focused reading = Some ContentPane
   \<and> scroll_y (content reading) = 5
   \<and> scroll_y (content (ContentView_on_key ''x'' (ContentView_on_key ''g'' reading))) = 0"
  by code_simp

text \<open>
  Claim C1, amended. A single \<open>g\<close> scrolls to the top at once. After \<open>g\<close> and any second
  key that is not one of the other scroll keys, the content view is the one before the
  \<open>g\<close> with its offset set to 0.
\<close>

theorem g_scrolls_home_at_once:
  "key \<notin> {''j'', ''k'', ''G'', ''ctrl+d'', ''ctrl+u''} \<Longrightarrow>
   content (ContentView_on_key key (ContentView_on_key ''g'' s)) = (content s)\<lparr>scroll_y := 0\<rparr>"
  by (simp add: ContentView_on_key_def on_content_def scroll_home_zero
      action_return_to_tree_def focus_def focusable_def blur_def)

theorem g_scrolls_home_at_once_witness:
  "content (ContentView_on_key ''x'' (ContentView_on_key ''g'' reading))
   = (content reading)\<lparr>scroll_y := 0\<rparr>"
proof -
  have h: "''x'' \<notin> {''j'', ''k'', ''G'', ''ctrl+d'', ''ctrl+u''}" by simp
  show ?thesis by (rule g_scrolls_home_at_once[OF h])
qed

subsection \<open>Focus\<close>




lemma highlight_frame:
  "focused (on_tree_node_highlighted fs ev s) = focused s
   \<and> visible (on_tree_node_highlighted fs ev s) = visible s"
  by (simp add: on_tree_node_highlighted_def update_content_def on_content_def Let_def
      split: option.splits sum.splits)

lemma focus_ok_focus: "focus_ok s \<Longrightarrow> focus_ok (focus w s)"
  by (cases w) (auto simp: focus_ok_def focus_def focusable_def split: if_splits)

lemma focus_ok_switch_to_content: "focus_ok (focus ContentPane (blur TreePane s))"
  by (simp add: focus_ok_def focus_def focusable_def blur_def)

lemma focus_ok_switch_to_tree: "focus_ok s \<Longrightarrow> focus_ok (focus TreePane (blur ContentPane s))"
  by (auto simp: focus_ok_def focus_def focusable_def blur_def split: if_splits)

lemma focus_ok_cursor [simp]: "focus_ok (s\<lparr>cursor := p\<rparr>) = focus_ok s"
  by (simp add: focus_ok_def)

lemma focus_ok_root [simp]: "focus_ok (s\<lparr>root := r\<rparr>) = focus_ok s"
  by (simp add: focus_ok_def)

lemma focus_ok_on_cursor_node: "focus_ok s \<Longrightarrow> focus_ok (on_cursor_node f s)"
  by (cases "cursor s") (simp_all add: on_cursor_node_def)

lemma focus_ok_on_content: "focus_ok s \<Longrightarrow> focus_ok (on_content f s)"
  by (simp add: focus_ok_def on_content_def)

lemma focus_ok_toggle: "focus_ok s \<Longrightarrow> focus_ok (toggle_visibility s)"
  by (auto simp: focus_ok_def toggle_visibility_def focus_leaves_hidden_def focus_def
      focusable_def Let_def split: if_splits)

lemma focus_ok_ContentView_on_key: "focus_ok s \<Longrightarrow> focus_ok (ContentView_on_key key s)"
  by (simp add: ContentView_on_key_def focus_ok_on_content action_return_to_tree_def
      focus_ok_switch_to_tree)

lemma focus_ok_FileTree_on_key:
  "focus_ok s \<Longrightarrow>
   focus_ok (FileTree_on_key (\<lambda>t. t\<lparr>cursor := p\<rparr>) (\<lambda>t. t\<lparr>cursor := p\<rparr>) key s)"
  by (cases "cursor_node s")
     (simp_all add: FileTree_on_key_def focus_ok_on_cursor_node focus_ok_switch_to_content)

lemma focus_ok_step: "focus_ok s \<Longrightarrow> focus_ok (step e s)"
proof (cases e)
  case (ContentKey key)
  then show "focus_ok s \<Longrightarrow> ?thesis" by (simp add: focus_ok_ContentView_on_key)
next
  case (TreeKey key p)
  then show "focus_ok s \<Longrightarrow> ?thesis" by (simp add: focus_ok_FileTree_on_key)
next
  case (ScreenKey key)
  then show "focus_ok s \<Longrightarrow> ?thesis"
    by (simp add: MainScreen_on_key_def action_switch_focus_def focus_ok_switch_to_content
        focus_ok_switch_to_tree)
next
  case ToggleSidebar
  then show "focus_ok s \<Longrightarrow> ?thesis" by (simp add: action_toggle_sidebar_def focus_ok_toggle)
next
  case FocusViewer
  then show "focus_ok s \<Longrightarrow> ?thesis"
    by (simp add: action_focus_viewer_def focus_ok_switch_to_content)
next
  case FocusTree
  then show "focus_ok s \<Longrightarrow> ?thesis"
    by (simp add: action_focus_tree_def focus_ok_switch_to_tree)
next
  case ExpandNode
  then show "focus_ok s \<Longrightarrow> ?thesis"
    by (simp add: action_expand_node_def focus_ok_on_cursor_node split: option.splits)
next
  case CollapseNode
  then show "focus_ok s \<Longrightarrow> ?thesis"
    by (simp add: action_collapse_node_def focus_ok_on_cursor_node split: option.splits)
next
  case (Highlighted fs ev)
  then show "focus_ok s \<Longrightarrow> ?thesis" by (simp add: focus_ok_def highlight_frame)
next
  case (Layout h)
  then show "focus_ok s \<Longrightarrow> ?thesis" by (simp add: focus_ok_on_content)
qed

lemma focus_ok_run: "focus_ok s \<Longrightarrow> focus_ok (run es s)"
  unfolding run_def by (induction es arbitrary: s) (simp_all add: focus_ok_step)

lemma focus_ok_startup: "startup assets vh sh = Some s \<Longrightarrow> focus_ok s"
  by (auto simp: startup_def FileTree_on_mount_def load_directory_def compose_def
      MainScreen_on_mount_def focus_def focusable_def focus_ok_def split: option.splits)

lemma hide_focuses_content:
  "focus_ok s \<Longrightarrow> visible s \<Longrightarrow>
   \<not> visible (toggle_visibility s) \<and> focused (toggle_visibility s) = Some ContentPane"
  by (cases "focused s"; cases "the (focused s)")
     (auto simp: focus_ok_def toggle_visibility_def focus_leaves_hidden_def Let_def)

text \<open>
  Claim C4. In every state the viewer reaches after startup, by whatever events, a
  hidden sidebar does not have the focus; and whenever the sidebar is hidden from such a
  state, the focus is on the content view right after. What the focus does when the
  tree is hidden, and that a hidden tree cannot take it, is the framework's part,
  modelled from the spec; the source asks for the focus only when it shows the tree.
\<close>

theorem hidden_tree_never_focused:
  assumes "startup assets vh sh = Some s0"
  shows "(\<not> visible (run es s0) \<longrightarrow> focused (run es s0) \<noteq> Some TreePane)
       \<and> (visible (run es s0) \<longrightarrow>
            \<not> visible (action_toggle_sidebar (run es s0))
            \<and> focused (action_toggle_sidebar (run es s0)) = Some ContentPane)"
proof -
  have ok: "focus_ok (run es s0)"
    by (rule focus_ok_run[OF focus_ok_startup[OF assms]])
  then show ?thesis
    using hide_focuses_content[OF ok] by (auto simp: focus_ok_def action_toggle_sidebar_def)
qed

theorem hidden_tree_never_focused_witness:
  "startup example_assets 100 10 = Some started
   \<and> \<not> visible (run [ScreenKey ''tab'', ToggleSidebar, ScreenKey ''tab''] started)
   \<and> focused (run [ScreenKey ''tab'', ToggleSidebar, ScreenKey ''tab''] started) \<noteq> Some TreePane
   \<and> visible (run [] started)
   \<and> \<not> visible (action_toggle_sidebar (run [] started))
   \<and> focused (action_toggle_sidebar (run [] started)) = Some ContentPane"
proof -
  have h: "startup example_assets 100 10 = Some started" by code_simp
  have v1: "\<not> visible (run [ScreenKey ''tab'', ToggleSidebar, ScreenKey ''tab''] started)"
    by code_simp
  have v2: "visible (run [] started)" by code_simp
  show ?thesis
    using hidden_tree_never_focused[OF h, of "[ScreenKey ''tab'', ToggleSidebar, ScreenKey ''tab'']"]
      hidden_tree_never_focused[OF h, of "[]"] h v1 v2
    by simp
qed

subsection \<open>Expanding and collapsing\<close>

lemma node_at_update_at:
  "node_at r p = Some n \<Longrightarrow> node_at (update_at p f r) p = Some (f n)"
proof (induction p arbitrary: r)
  case Nil
  then show ?case by simp
next
  case (Cons i p)
  then show ?case by (cases r) (auto split: if_splits)
qed

lemma update_at_twice: "update_at p g (update_at p f r) = update_at p (g \<circ> f) r"
proof (induction p arbitrary: r)
  case Nil
  show ?case by simp
next
  case (Cons i p)
  show ?case by (cases r) (simp add: Cons.IH)
qed

lemma update_at_fixed: "node_at r p = Some n \<Longrightarrow> f n = n \<Longrightarrow> update_at p f r = r"
proof (induction p arbitrary: r)
  case Nil
  then show ?case by simp
next
  case (Cons i p)
  then show ?case by (cases r) (auto split: if_splits simp: list_update_same_conv)
qed

lemma expand_collapse: "is_expanded n \<Longrightarrow> expand (collapse n) = n"
  by (cases n) simp

lemma collapse_expand: "\<not> is_expanded n \<Longrightarrow> collapse (expand n) = n"
  by (cases n) simp

lemma children_expand [simp]: "children (expand n) = children n"
  by (cases n) simp

lemma children_collapse [simp]: "children (collapse n) = children n"
  by (cases n) simp

lemma is_expanded_expand [simp]: "is_expanded (expand n)"
  by (cases n) simp

lemma is_expanded_collapse [simp]: "\<not> is_expanded (collapse n)"
  by (cases n) simp

lemma enter_twice_root:
  "root (FileTree_on_key down up ''enter'' (FileTree_on_key down up ''enter'' s)) = root s"
proof (cases "cursor_node s")
  case None
  then show ?thesis by (simp add: FileTree_on_key_def)
next
  case (Some n)
  then obtain p where p: "cursor s = Some p" and n: "node_at (root s) p = Some n"
    by (auto simp: cursor_node_def split: option.splits)
  show ?thesis
  proof (cases "children n = []")
    case True
    then show ?thesis using p n
      by (simp add: FileTree_on_key_def focus_def focusable_def blur_def cursor_node_def)
  next
    case False
    show ?thesis
    proof (cases "is_expanded n")
      case True
      have "update_at p (expand \<circ> collapse) (root s) = root s"
        using update_at_fixed[OF n, of "expand \<circ> collapse"] expand_collapse[OF True] by simp
      then show ?thesis using Some p n False True
        by (simp add: FileTree_on_key_def on_cursor_node_def cursor_node_def
            node_at_update_at update_at_twice)
    next
      case nexp: False
      have "update_at p (collapse \<circ> expand) (root s) = root s"
        using update_at_fixed[OF n, of "collapse \<circ> expand"] collapse_expand[OF nexp] by simp
      then show ?thesis using Some p n False nexp
        by (simp add: FileTree_on_key_def on_cursor_node_def cursor_node_def
            node_at_update_at update_at_twice)
    qed
  qed
qed

lemma enter_flips:
  "cursor_node s = Some n \<Longrightarrow> children n \<noteq> [] \<Longrightarrow>
   map_option is_expanded (cursor_node (FileTree_on_key down up ''enter'' s))
   = Some (\<not> is_expanded n)"
  by (auto simp: FileTree_on_key_def on_cursor_node_def cursor_node_def node_at_update_at
      split: option.splits)

lemma zo_noop:
  "cursor_node s = Some n \<Longrightarrow> is_expanded n \<Longrightarrow> action_expand_node s = s"
  by (simp add: action_expand_node_def)

lemma zc_noop:
  "cursor_node s = Some n \<Longrightarrow> \<not> is_expanded n \<Longrightarrow> action_collapse_node s = s"
  by (simp add: action_collapse_node_def)

text \<open>
  Claim C8. The toggle is the Enter key of the tree. On a node with children one Enter
  flips \<open>is_expanded\<close>; two Enters leave the whole tree, and so every node's flag, as
  it was, for every node. \<open>zo\<close> on an expanded node and \<open>zc\<close> on a collapsed node change
  nothing at all.
\<close>

theorem expand_collapse_idempotent:
  "root (FileTree_on_key down up ''enter'' (FileTree_on_key down up ''enter'' s)) = root s
   \<and> (cursor_node s = Some n \<and> children n \<noteq> [] \<longrightarrow>
        map_option is_expanded (cursor_node (FileTree_on_key down up ''enter'' s))
        = Some (\<not> is_expanded n))
   \<and> (cursor_node s = Some n \<and> is_expanded n \<longrightarrow> action_expand_node s = s)
   \<and> (cursor_node s = Some n \<and> \<not> is_expanded n \<longrightarrow> action_collapse_node s = s)"
  using enter_twice_root enter_flips zo_noop zc_noop by blast

theorem expand_collapse_idempotent_witness:
  "(cursor_node (cursor_on [1] started) = Some src_node \<and> children src_node \<noteq> []
    \<and> \<not> is_expanded src_node)
   \<and> root (FileTree_on_key id id ''enter'' (FileTree_on_key id id ''enter'' (cursor_on [1] started)))
      = root (cursor_on [1] started)
   \<and> map_option is_expanded (cursor_node (FileTree_on_key id id ''enter'' (cursor_on [1] started)))
      = Some True
   \<and> action_collapse_node (cursor_on [1] started) = cursor_on [1] started
   \<and> (cursor_node (FileTree_on_key id id ''enter'' (cursor_on [1] started)) = Some (expand src_node)
      \<and> is_expanded (expand src_node))
   \<and> action_expand_node (FileTree_on_key id id ''enter'' (cursor_on [1] started))
      = FileTree_on_key id id ''enter'' (cursor_on [1] started)"
proof -
  let ?s = "cursor_on [1] started"
  let ?t = "FileTree_on_key id id ''enter'' ?s"
  have c: "cursor_node ?s = Some src_node" by code_simp
  have f: "children src_node \<noteq> [] \<and> \<not> is_expanded src_node" by (simp add: src_node_def)
  have c': "cursor_node ?t = Some (expand src_node)" by code_simp
  have e: "is_expanded (expand src_node)" by simp
  show ?thesis
    using expand_collapse_idempotent[of id id ?s src_node]
      expand_collapse_idempotent[of id id ?t "expand src_node"] c f c' e
    by simp
qed

text \<open>
  Claim C5 fails on the code. In the session above the first node of the tree is the empty
  directory \<open>empty\<close>, added with \<open>add\<close>. Enter on it does not toggle it: its
  \<open>children\<close> are empty, so the branch meant for files runs and the focus goes to the
  content view.
\<close>

theorem enter_on_empty_directory:
  "map_option allow_expand (cursor_node (cursor_on [0] started)) = Some True
   \<and> map_option children (cursor_node (cursor_on [0] started)) = Some []
   \<and> focused (cursor_on [0] started) = Some TreePane
   \<and> focused (FileTree_on_key id id ''enter'' (cursor_on [0] started)) = Some ContentPane
   \<and> root (FileTree_on_key id id ''enter'' (cursor_on [0] started)) = root started"
  by code_simp

subsection \<open>Highlighting a node\<close>

lemma highlight_c_file:
  assumes "data n = Some d" and "d \<noteq> []" and "map_of d ''path'' = Some path"
    and "endswith path ''.c''" and "isfile fs path" and "read_text fs path = Inr text"
  shows "on_tree_node_highlighted fs (Some n) s =
         on_content (update (''```c\<newline>'' @ text @ ''\<newline>```'')) s"
proof -
  have "path \<noteq> []" using assms(4) by (auto simp: endswith_def)
  then show ?thesis using assms
    by (simp add: on_tree_node_highlighted_def update_content_def fenced_def)
qed

text \<open>
  Claim C2, as stated, fails: nothing resets the offset. In the session above the user has
  scrolled to offset 5 and is back in the tree; highlighting \<open>main.c\<close> (forty lines)
  replaces the text and leaves the offset at 5, also after the layout pass has validated
  the offset against the 42 lines of the new content.
\<close>

theorem select_c_file_counterexample:
  "node_at (root browsing) [2] = Some main_c_node
   \<and> scroll_y (content browsing) = 5
   \<and> scroll_y (content (on_tree_node_highlighted example_fs (Some main_c_node) browsing)) = 5
   \<and> scroll_y (relayout 42 (content (on_tree_node_highlighted example_fs (Some main_c_node) browsing))) = 5"
  by code_simp

lemma relayout_offset:
  "scroll_y (relayout h v) = max 0 (min (scroll_y v) (max 0 (h - size_height v)))"
  by (auto simp: relayout_def set_scroll_y_def validate_scroll_y_def max_scroll_y_def)

text \<open>
  Claim C2, amended. Highlighting a node whose path ends in \<open>.c\<close> and can be read
  replaces the shown text by the file's text inside a \<open>c\<close> code fence (the program's
  form of the hint ``C''). The offset is not reset to 0: once the new content, of
  whatever height \<open>h\<close>, is laid out, the offset is the one before the load clamped to
  \<open>0 \<le> offset \<le> max(0, h - viewportHeight)\<close>.
\<close>

theorem select_c_file_keeps_offset:
  assumes "data n = Some d" and "d \<noteq> []" and "map_of d ''path'' = Some path"
    and "endswith path ''.c''" and "isfile fs path" and "read_text fs path = Inr text"
  shows "render_text (relayout h (content (on_tree_node_highlighted fs (Some n) s)))
         = ''```c\<newline>'' @ text @ ''\<newline>```''
       \<and> scroll_y (relayout h (content (on_tree_node_highlighted fs (Some n) s)))
         = max 0 (min (scroll_y (content s)) (max 0 (h - size_height (content s))))"
  using highlight_c_file[OF assms]
  by (simp add: relayout_offset on_content_def update_def)
     (simp add: relayout_def set_scroll_y_def)

theorem select_c_file_keeps_offset_witness:
  "render_text (relayout 42 (content (on_tree_node_highlighted example_fs (Some main_c_node) browsing)))
   = ''```c\<newline>'' @ main_c_text @ ''\<newline>```''
   \<and> scroll_y (relayout 42 (content (on_tree_node_highlighted example_fs (Some main_c_node) browsing)))
   = 5"
proof -
  have h1: "data main_c_node = Some [(''path'', ''assets/main.c'')]" by (simp add: main_c_node_def)
  have h2: "[(''path'', ''assets/main.c'')] \<noteq> ([] :: (string \<times> string) list)" by simp
  have h3: "map_of [(''path'', ''assets/main.c'')] ''path'' = Some ''assets/main.c''" by simp
  have h4: "endswith ''assets/main.c'' ''.c''" by (simp add: endswith_def)
  have h5: "isfile example_fs ''assets/main.c''" by (simp add: example_fs_def)
  have h6: "read_text example_fs ''assets/main.c'' = Inr main_c_text" by (simp add: example_fs_def)
  have b: "scroll_y (content browsing) = 5 \<and> size_height (content browsing) = 10" by code_simp
  show ?thesis
    using select_c_file_keeps_offset[OF h1 h2 h3 h4 h5 h6, of 42 browsing] b by simp
qed







subsection \<open>Loading the directory\<close>

lemma those_map_Some:
  "those (map f xs) = Some ys \<Longrightarrow> list_all2 (\<lambda>x y. f x = Some y) xs ys"
  by (induction xs arbitrary: ys) (auto split: option.splits)

lemma child_key_le: "child_key a \<le> child_key b \<Longrightarrow> listed_before a b"
  by (auto simp: child_key_def listed_before_def less_eq_prod_def)

lemma no_space_in_icons:
  "CHR '' '' \<notin> set icon_folder" "CHR '' '' \<notin> set (file_icon name)"
  by (auto simp: icon_folder_def file_icon_def icon_c_def icon_text_def icon_make_def
      icon_other_def Let_def)

lemma node_name_label:
  assumes "CHR '' '' \<notin> set icon" and "label n = icon @ '' '' @ name"
  shows "node_name n = name"
proof -
  have "dropWhile (\<lambda>c. c \<noteq> CHR '' '') (icon @ '' '' @ name) = '' '' @ name"
    using assms(1) by (subst dropWhile_append2) auto
  then show ?thesis by (simp add: node_name_def assms(2))
qed

lemma list_all2_map_eq:
  "list_all2 (\<lambda>x y. g y = f x) xs ys \<Longrightarrow> map g ys = map f xs"
  by (induction rule: list_all2_induct) simp_all

lemma list_all2_in_set:
  "list_all2 P xs ys \<Longrightarrow> list_all2 (\<lambda>x y. x \<in> set xs \<and> P x y) xs ys"
  by (simp add: list_all2_conv_all_nth)

lemma list_all2_right_witness:
  "list_all2 P xs ys \<Longrightarrow> y \<in> set ys \<Longrightarrow> \<exists>x \<in> set xs. P x y"
proof -
  assume a: "list_all2 P xs ys" and y: "y \<in> set ys"
  then obtain i where i: "i < length ys" "ys ! i = y" by (auto simp: in_set_conv_nth)
  have len: "length xs = length ys" using a by (rule list_all2_lengthD)
  have "P (xs ! i) (ys ! i)" using a i(1) by (simp add: list_all2_conv_all_nth)
  moreover have "xs ! i \<in> set xs" using i(1) len by simp
  ultimately show ?thesis using i(2) by blast
qed

lemma add_to_tree_listed:
  "add_to_tree path dir = Some cs \<Longrightarrow>
   sorted_wrt listed_before cs \<and> (\<forall>c \<in> set cs. \<not> skipped (node_name c) \<and> well_listed c)"
proof (induction path dir arbitrary: cs rule: add_to_tree.induct)
  case (1 path)
  then show ?case by simp
next
  case (2 path entries)
  define xs where "xs = filter (\<lambda>item. \<not> skipped (fs_name item)) (sort_key iter_key entries)"
  define f where "f = (\<lambda>item. case item of
          FsDir name sub \<Rightarrow>
            (case add_to_tree (path @ ''/'' @ name) sub of
               None \<Rightarrow> None
             | Some branch \<Rightarrow>
                 Some (TNode (icon_folder @ '' '' @ name)
                         (Some [(''path'', path @ ''/'' @ name)]) branch False True))
        | FsFile name \<Rightarrow>
            Some (TNode (file_icon name @ '' '' @ name)
                    (Some [(''path'', path @ ''/'' @ name)]) [] False False))"
  have those: "those (map f xs) = Some cs"
    using "2.prems" unfolding xs_def f_def by (simp only: add_to_tree.simps)
  have rel: "list_all2 (\<lambda>x y. f x = Some y) xs cs"
    by (rule those_map_Some[OF those])
  have item: "child_key y = iter_key x \<and> node_name y = fs_name x \<and> well_listed y"
    if xin: "x \<in> set xs" and fx: "f x = Some y" for x y
  proof (cases x)
    case (FsFile name)
    then have y: "y = TNode (file_icon name @ '' '' @ name)
                    (Some [(''path'', path @ ''/'' @ name)]) [] False False"
      using fx by (simp add: f_def)
    have "label y = file_icon name @ '' '' @ name" by (simp add: y)
    then have "node_name y = name"
      by (rule node_name_label[OF no_space_in_icons(2)])
    then show ?thesis using FsFile y by (simp add: child_key_def iter_key_def)
  next
    case (FsDir name sub)
    then obtain branch where b: "add_to_tree (path @ ''/'' @ name) sub = Some branch"
      and y: "y = TNode (icon_folder @ '' '' @ name)
                         (Some [(''path'', path @ ''/'' @ name)]) branch False True"
      using fx by (auto simp: f_def split: option.splits)
    have "label y = icon_folder @ '' '' @ name" by (simp add: y)
    then have nm: "node_name y = name"
      by (rule node_name_label[OF no_space_in_icons(1)])
    have "x \<in> set (filter (\<lambda>item. \<not> skipped (fs_name item)) (sort_key iter_key entries))"
      using xin by (simp only: xs_def)
    from "2.IH"[OF this FsDir b] have "well_listed y" by (simp add: y)
    then show ?thesis using FsDir y nm by (simp add: child_key_def iter_key_def)
  qed
  have rel2: "list_all2 (\<lambda>x y. x \<in> set xs \<and> f x = Some y) xs cs"
    by (rule list_all2_in_set[OF rel])
  have "list_all2 (\<lambda>x y. child_key y = iter_key x) xs cs"
    using rel2 by (rule list_all2_mono) (simp add: item)
  then have keys: "map child_key cs = map iter_key xs"
    by (rule list_all2_map_eq)
  have "sorted (map iter_key (sort_key iter_key entries))"
    by (rule sorted_sort_key)
  then have "sorted (map iter_key xs)"
    unfolding xs_def by (rule sorted_filter)
  then have "sorted (map child_key cs)"
    by (simp only: keys)
  then have "sorted_wrt (\<lambda>a b. child_key a \<le> child_key b) cs"
    by (simp only: sorted_map)
  then have sorted: "sorted_wrt listed_before cs"
    by (rule sorted_wrt_mono_rel[rotated]) (rule child_key_le)
  have "\<not> skipped (node_name c) \<and> well_listed c" if cin: "c \<in> set cs" for c
  proof -
    obtain x where x: "x \<in> set xs" "f x = Some c"
      using list_all2_right_witness[OF rel2 cin] by blast
    have "\<not> skipped (fs_name x)" using x(1) by (simp add: xs_def)
    then show ?thesis using item[OF x] by simp
  qed
  then show ?case using sorted by blast
qed

text \<open>
  Claim C6. In the tree that startup builds from any \<open>assets\<close> directory (whenever
  every directory in it can be listed, so that \<open>load_directory\<close> returns), the children
  of every node list directories before files and, within each group, are in the order of
  their lower-cased names; and no node anywhere in the tree has a name that starts with a
  dot or is \<open>__pycache__\<close>.
\<close>

theorem startup_tree_listed:
  "startup assets vh sh = Some s \<Longrightarrow> well_listed (root s)"
proof -
  assume "startup assets vh sh = Some s"
  then obtain cs where cs: "add_to_tree ''assets'' assets = Some cs"
    and r: "root s = TNode ''Files'' None cs True True"
    by (auto simp: startup_def FileTree_on_mount_def load_directory_def compose_def
        MainScreen_on_mount_def focus_def focusable_def split: option.splits)
  show ?thesis using add_to_tree_listed[OF cs] by (simp add: r)
qed

theorem startup_tree_listed_witness:
  "startup example_assets 100 10 = Some started
   \<and> well_listed (root started)
   \<and> map node_name (children (root started)) = [''empty'', ''src'', ''main.c'', ''README.md'']"
proof -
  have h: "startup example_assets 100 10 = Some started" by code_simp
  have n: "map node_name (children (root started)) = [''empty'', ''src'', ''main.c'', ''README.md'']"
    by code_simp
  show ?thesis using startup_tree_listed[OF h] h n by simp
qed

end
